theory Spec2Isabelle
  imports Main "HOL-Library.Word"
begin

section \<open>Strings, bytes and time\<close>

text \<open>
  A Python \<open>str\<close> is modelled as a HOL \<open>string\<close>; a character stands for the code point
  of the same number, so the strings of the model are those over the code points below 256.
  A \<open>bytes\<close> value is a list of 8-bit words. A timezone-aware UTC \<open>datetime\<close> is the
  number of microseconds since the epoch, and a \<open>timedelta\<close> a number of microseconds.
\<close>

type_synonym byte = "8 word"

type_synonym datetime = int

text \<open>\<open>timedelta(days=d, hours=h, minutes=m)\<close>\<close>

definition timedelta :: "int \<Rightarrow> int \<Rightarrow> int \<Rightarrow> int" where
  "timedelta days hours minutes = ((days * 24 + hours) * 60 + minutes) * 60 * 1000000"

text \<open>\<open>str.lower()\<close> on code points below 256: the letters A-Z and the upper-case letters
  of the Latin-1 block (U+00C0 to U+00DE without the multiplication sign U+00D7) move up by 32.\<close>

definition lower_char :: "char \<Rightarrow> char" where
  "lower_char c =
     (let n = (of_char c :: nat)
      in if (65 \<le> n \<and> n \<le> 90) \<or> (192 \<le> n \<and> n \<le> 222 \<and> n \<noteq> 215)
         then char_of (n + 32) else c)"

definition py_lower :: "string \<Rightarrow> string" where
  "py_lower s = map lower_char s"

text \<open>\<open>str.isspace()\<close> of one code point below 256: U+0009 to U+000D, U+001C to U+0020,
  U+0085 and U+00A0.\<close>

definition is_space :: "char \<Rightarrow> bool" where
  "is_space c =
     (let n = (of_char c :: nat)
      in (9 \<le> n \<and> n \<le> 13) \<or> (28 \<le> n \<and> n \<le> 32) \<or> n = 133 \<or> n = 160)"

text \<open>\<open>str.strip()\<close>: white space removed at both ends.\<close>

definition py_strip :: "string \<Rightarrow> string" where
  "py_strip s = rev (dropWhile is_space (rev (dropWhile is_space s)))"

text \<open>\<open>str.encode()\<close>: UTF-8, one byte below U+0080 and two bytes from there to U+00FF.\<close>

definition utf8_char :: "char \<Rightarrow> byte list" where
  "utf8_char c =
     (let n = (of_char c :: nat)
      in if n < 128 then [of_nat n] else [of_nat (192 + n div 64), of_nat (128 + n mod 64)])"

definition encode :: "string \<Rightarrow> byte list" where
  "encode s = concat (map utf8_char s)"

text \<open>\<open>hexdigest()\<close>: two lower-case hexadecimal digits for every byte of the digest.\<close>

definition hex_digits :: string where
  "hex_digits = ''0123456789abcdef''"

definition hex_byte :: "byte \<Rightarrow> string" where
  "hex_byte b = [hex_digits ! (unat b div 16), hex_digits ! (unat b mod 16)]"

definition hexdigest :: "byte list \<Rightarrow> string" where
  "hexdigest bs = concat (map hex_byte bs)"

section \<open>Random tokens\<close>

text \<open>
  \<open>secrets.token_urlsafe(nbytes)\<close> of the standard library reads \<open>nbytes\<close> bytes from the
  system's random source, encodes them in URL-safe base64 and strips the padding:
  \<open>base64.urlsafe_b64encode(token_bytes(nbytes)).rstrip(b'=').decode('ascii')\<close>.
  The random source is a parameter: the byte it yields at each position of the read.
\<close>

definition b64_alphabet :: string where
  "b64_alphabet = ''ABCDEFGHIJKLMNOPQRSTUVWXYZabcdefghijklmnopqrstuvwxyz0123456789-_''"

definition b64_char :: "nat \<Rightarrow> char" where
  "b64_char n = b64_alphabet ! n"

fun urlsafe_b64encode :: "byte list \<Rightarrow> string" where
  "urlsafe_b64encode [] = []"
| "urlsafe_b64encode [a] =
     [b64_char (unat a div 4), b64_char ((unat a mod 4) * 16), CHR ''='', CHR ''='']"
| "urlsafe_b64encode [a, b] =
     [b64_char (unat a div 4), b64_char ((unat a mod 4) * 16 + unat b div 16),
      b64_char ((unat b mod 16) * 4), CHR ''='']"
| "urlsafe_b64encode (a # b # c # rest) =
     [b64_char (unat a div 4), b64_char ((unat a mod 4) * 16 + unat b div 16),
      b64_char ((unat b mod 16) * 4 + unat c div 64), b64_char (unat c mod 64)]
     @ urlsafe_b64encode rest"

definition rstrip_pad :: "string \<Rightarrow> string" where
  "rstrip_pad s = rev (dropWhile (\<lambda>c. c = CHR ''='') (rev s))"

definition token_bytes :: "(nat \<Rightarrow> byte) \<Rightarrow> nat \<Rightarrow> byte list" where
  "token_bytes urandom nbytes = map urandom [0..<nbytes]"

definition token_urlsafe :: "(nat \<Rightarrow> byte) \<Rightarrow> nat \<Rightarrow> string" where
  "token_urlsafe urandom nbytes = rstrip_pad (urlsafe_b64encode (token_bytes urandom nbytes))"

definition generate_token :: "(nat \<Rightarrow> byte) \<Rightarrow> string" where
  "generate_token urandom = token_urlsafe urandom 32"

section \<open>Hashing\<close>

text \<open>
  \<open>hashlib.sha256\<close> is the standard library's digest, a function from bytes to the bytes
  of the digest; it is the parameter \<open>sha256\<close> of every operation that hashes.
\<close>

definition hash_token :: "(byte list \<Rightarrow> byte list) \<Rightarrow> string \<Rightarrow> string" where
  "hash_token sha256 token = hexdigest (sha256 (encode token))"

definition hash_email_for_rate_limit :: "(byte list \<Rightarrow> byte list) \<Rightarrow> string \<Rightarrow> string" where
  "hash_email_for_rate_limit sha256 email =
     hexdigest (sha256 (encode (py_strip (py_lower email))))"

section \<open>The stored data\<close>

text \<open>
  Modelled from the spec: the declarations of the tables in \<open>app/models.py\<close>, which the
  operations import. The columns are those of the spec's data model and of the migration
  that creates the tables: a User has an id, a username and an optional email; an AuthToken
  has an opaque id, the owning user's id, the token type, the hex SHA-256 hash of the raw
  secret, a creation time, an expiry time and a nullable consumption time; a RateLimit row
  has an opaque id, the hashed identifier, the action type and a timestamp. A new row takes
  its creation time or timestamp, which the operations do not pass, from the clock.
  A table is the list of its rows in the order a query without ORDER BY scans them, new rows
  last.
\<close>

type_synonym guid = nat

record User =
  u_uuid :: guid
  u_username :: string
  u_email :: "string option"

record AuthToken =
  at_uuid :: guid
  at_user_id :: guid
  at_token_hash :: string
  at_token_type :: string
  at_created_at :: datetime
  at_expires_at :: datetime
  at_used_at :: "datetime option"

record RateLimit =
  rl_uuid :: guid
  rl_identifier :: string
  rl_action_type :: string
  rl_timestamp :: datetime

record database =
  users :: "User list"
  auth_tokens :: "AuthToken list"
  rate_limits :: "RateLimit list"

text \<open>\<open>Query.first()\<close>: the first row of a result, or nothing.\<close>

definition first :: "'a list \<Rightarrow> 'a option" where
  "first rows = (case rows of [] \<Rightarrow> None | r # _ \<Rightarrow> Some r)"

text \<open>\<open>Query.filter(p).delete()\<close>: the rows that remain.\<close>

definition delete_where :: "('a \<Rightarrow> bool) \<Rightarrow> 'a list \<Rightarrow> 'a list" where
  "delete_where p rows = filter (\<lambda>r. \<not> p r) rows"

text \<open>\<open>User.query.get(id)\<close>: the user with this primary key.\<close>

definition query_get :: "database \<Rightarrow> guid \<Rightarrow> User option" where
  "query_get db ident = first (filter (\<lambda>u. u_uuid u = ident) (users db))"

text \<open>A loaded row object is changed and committed: the first row that satisfies \<open>p\<close>,
  the one \<open>first\<close> returned, is written back changed by \<open>f\<close>.\<close>

fun update_first :: "('a \<Rightarrow> bool) \<Rightarrow> ('a \<Rightarrow> 'a) \<Rightarrow> 'a list \<Rightarrow> 'a list" where
  "update_first p f [] = []"
| "update_first p f (r # rows) = (if p r then f r # rows else r # update_first p f rows)"

section \<open>The token manager (\<open>app/auth_tokens.py\<close>)\<close>

text \<open>
  Every operation takes the database and returns its result with the database it leaves.
  \<open>now\<close> is the value of \<open>datetime.now(timezone.utc)\<close> in the call, \<open>new_uuid\<close> the
  primary key a new row receives.
\<close>

definition PASSWORD_RESET_EXPIRY :: int where
  "PASSWORD_RESET_EXPIRY = timedelta 0 1 0"

definition MAGIC_LINK_EXPIRY :: int where
  "MAGIC_LINK_EXPIRY = timedelta 0 0 15"

definition RATE_LIMIT_WINDOW :: int where
  "RATE_LIMIT_WINDOW = timedelta 0 1 0"

definition RATE_LIMIT_MAX_REQUESTS :: nat where
  "RATE_LIMIT_MAX_REQUESTS = 3"

definition check_rate_limit ::
  "(byte list \<Rightarrow> byte list) \<Rightarrow> datetime \<Rightarrow> string \<Rightarrow> string \<Rightarrow> database \<Rightarrow> bool \<times> database" where
  "check_rate_limit sha256 now email action_type db =
     (let identifier = hash_email_for_rate_limit sha256 email;
          cutoff = now - RATE_LIMIT_WINDOW;
          cnt = length (filter (\<lambda>r. rl_identifier r = identifier
                                   \<and> rl_action_type r = action_type
                                   \<and> rl_timestamp r > cutoff) (rate_limits db))
      in (cnt < RATE_LIMIT_MAX_REQUESTS, db))"

definition record_rate_limit ::
  "(byte list \<Rightarrow> byte list) \<Rightarrow> datetime \<Rightarrow> guid \<Rightarrow> string \<Rightarrow> string \<Rightarrow> database \<Rightarrow> unit \<times> database" where
  "record_rate_limit sha256 now new_uuid email action_type db =
     (let identifier = hash_email_for_rate_limit sha256 email;
          rate_limit = \<lparr>rl_uuid = new_uuid, rl_identifier = identifier,
                        rl_action_type = action_type, rl_timestamp = now\<rparr>
      in ((), db\<lparr>rate_limits := rate_limits db @ [rate_limit]\<rparr>))"

definition create_auth_token ::
  "(byte list \<Rightarrow> byte list) \<Rightarrow> (nat \<Rightarrow> byte) \<Rightarrow> datetime \<Rightarrow> guid \<Rightarrow> User \<Rightarrow> string \<Rightarrow> database
     \<Rightarrow> string \<times> database" where
  "create_auth_token sha256 urandom now new_uuid user token_type db =
     (let db1 = db\<lparr>auth_tokens :=
                    delete_where (\<lambda>t. at_user_id t = u_uuid user
                                     \<and> at_token_type t = token_type
                                     \<and> at_used_at t = None) (auth_tokens db)\<rparr>;
          raw_token = generate_token urandom;
          token_hash = hash_token sha256 raw_token;
          expiry = (if token_type = ''password_reset''
                    then now + PASSWORD_RESET_EXPIRY
                    else now + MAGIC_LINK_EXPIRY);
          auth_token = \<lparr>at_uuid = new_uuid, at_user_id = u_uuid user,
                        at_token_hash = token_hash, at_token_type = token_type,
                        at_created_at = now, at_expires_at = expiry, at_used_at = None\<rparr>
      in (raw_token, db1\<lparr>auth_tokens := auth_tokens db1 @ [auth_token]\<rparr>))"

definition validate_token ::
  "(byte list \<Rightarrow> byte list) \<Rightarrow> datetime \<Rightarrow> string \<Rightarrow> string \<Rightarrow> database \<Rightarrow> User option \<times> database" where
  "validate_token sha256 now raw_token token_type db =
     (let token_hash = hash_token sha256 raw_token
      in case first (filter (\<lambda>t. at_token_hash t = token_hash
                                 \<and> at_token_type t = token_type
                                 \<and> at_used_at t = None
                                 \<and> at_expires_at t > now) (auth_tokens db)) of
           None \<Rightarrow> (None, db)
         | Some auth_token \<Rightarrow> (query_get db (at_user_id auth_token), db))"

definition invalidate_token ::
  "(byte list \<Rightarrow> byte list) \<Rightarrow> datetime \<Rightarrow> string \<Rightarrow> database \<Rightarrow> bool \<times> database" where
  "invalidate_token sha256 now raw_token db =
     (let token_hash = hash_token sha256 raw_token
      in case first (filter (\<lambda>t. at_token_hash t = token_hash) (auth_tokens db)) of
           Some auth_token \<Rightarrow>
             (True, db\<lparr>auth_tokens :=
                        update_first (\<lambda>t. at_token_hash t = token_hash)
                          (\<lambda>t. t\<lparr>at_used_at := Some now\<rparr>) (auth_tokens db)\<rparr>)
         | None \<Rightarrow> (False, db))"

definition cleanup_expired_tokens :: "datetime \<Rightarrow> database \<Rightarrow> unit \<times> database" where
  "cleanup_expired_tokens now db =
     (let cutoff = now;
          db1 = db\<lparr>auth_tokens :=
                    delete_where (\<lambda>t. at_expires_at t < cutoff) (auth_tokens db)\<rparr>;
          used_cutoff = cutoff - timedelta 1 0 0;
          db2 = db1\<lparr>auth_tokens :=
                     delete_where (\<lambda>t. case at_used_at t of None \<Rightarrow> False
                                                          | Some used \<Rightarrow> used < used_cutoff)
                       (auth_tokens db1)\<rparr>;
          rate_cutoff = cutoff - RATE_LIMIT_WINDOW;
          db3 = db2\<lparr>rate_limits :=
                     delete_where (\<lambda>r. rl_timestamp r < rate_cutoff) (rate_limits db2)\<rparr>
      in ((), db3))"

definition get_user_by_email :: "string \<Rightarrow> database \<Rightarrow> User option \<times> database" where
  "get_user_by_email email db =
     (if email = [] then (None, db)
      else let email_normalized = py_strip (py_lower email)
           in (first (filter (\<lambda>user. case u_email user of
                                          None \<Rightarrow> False
                                        | Some stored \<Rightarrow> stored \<noteq> []
                                            \<and> py_lower stored = email_normalized)
                             (users db)), db))"

section \<open>The notifier (\<open>app/email_service.py\<close>)\<close>












section \<open>The rate limit as the specification words it\<close>

text \<open>
  Following the specification's words, to be compared with \<open>check_rate_limit\<close>: the number
  of RateLimit rows whose identifier is the SHA-256 hash of the lower-cased, trimmed email,
  whose action type matches and whose timestamp lies strictly inside the trailing hour.
\<close>

definition spec_recent_requests ::
  "(byte list \<Rightarrow> byte list) \<Rightarrow> datetime \<Rightarrow> string \<Rightarrow> string \<Rightarrow> database \<Rightarrow> nat" where
  "spec_recent_requests sha256 now email action_type db =
     length (filter (\<lambda>r. rl_identifier r = hexdigest (sha256 (encode (py_strip (py_lower email))))
                         \<and> rl_action_type r = action_type
                         \<and> now - 3600000000 < rl_timestamp r) (rate_limits db))"

section \<open>Auxiliary facts\<close>

subsection \<open>Base64 and the length of a token\<close>

lemma first_filter_find: "first (filter p rows) = find p rows"
  by (induction rows) (simp_all add: first_def)

lemma pad_not_in_alphabet: "CHR ''='' \<notin> set b64_alphabet"
  by (simp add: b64_alphabet_def)

lemma b64_char_not_pad: "n < 64 \<Longrightarrow> b64_char n \<noteq> CHR ''=''"
proof -
  assume "n < 64"
  then have "n < length b64_alphabet" by (simp add: b64_alphabet_def)
  then have "b64_alphabet ! n \<in> set b64_alphabet" by (rule nth_mem)
  with pad_not_in_alphabet show ?thesis by (auto simp: b64_char_def)
qed

lemma rstrip_pad_append:
  "rstrip_pad (xs @ ys) = (if rstrip_pad ys = [] then rstrip_pad xs else xs @ rstrip_pad ys)"
  by (auto simp: rstrip_pad_def dropWhile_append dropWhile_eq_Nil_conv)

lemma byte_bounds:
  "unat (a :: byte) div 4 < 64"
  "(unat (a :: byte) mod 4) * 16 + unat (b :: byte) div 16 < 64"
  "(unat (a :: byte) mod 4) * 16 < 64"
  "(unat (b :: byte) mod 16) * 4 + unat (c :: byte) div 64 < 64"
  "(unat (b :: byte) mod 16) * 4 < 64"
  "unat (c :: byte) mod 64 < 64"
proof -
  have a: "unat a < 256" and b: "unat b < 256" and c: "unat c < 256"
    using unsigned_less [of a, where 'a = nat] unsigned_less [of b, where 'a = nat]
      unsigned_less [of c, where 'a = nat] by simp_all
  show "unat a div 4 < 64" using a by arith
  show "(unat a mod 4) * 16 + unat b div 16 < 64" using b by arith
  show "(unat a mod 4) * 16 < 64" by arith
  show "(unat b mod 16) * 4 + unat c div 64 < 64" using c by arith
  show "(unat b mod 16) * 4 < 64" by arith
  show "unat c mod 64 < 64" by arith
qed

lemma rstrip_b64_length:
  "length (rstrip_pad (urlsafe_b64encode bs)) = (4 * length bs + 2) div 3"
proof (induction bs rule: urlsafe_b64encode.induct)
  case 1
  show ?case by (simp add: rstrip_pad_def)
next
  case (2 a)
  show ?case by (simp add: rstrip_pad_def b64_char_not_pad byte_bounds)
next
  case (3 a b)
  show ?case by (simp add: rstrip_pad_def b64_char_not_pad byte_bounds)
next
  case (4 a b c rest)
  let ?q = "[b64_char (unat a div 4), b64_char ((unat a mod 4) * 16 + unat b div 16),
      b64_char ((unat b mod 16) * 4 + unat c div 64), b64_char (unat c mod 64)]"
  have q: "rstrip_pad ?q = ?q"
    by (simp add: rstrip_pad_def b64_char_not_pad byte_bounds)
  have e: "urlsafe_b64encode (a # b # c # rest) = ?q @ urlsafe_b64encode rest" by simp
  show ?case
  proof (cases "rstrip_pad (urlsafe_b64encode rest) = []")
    case True
    with 4 have "(4 * length rest + 2) div 3 = 0" by simp
    then have "rest = []" by (cases rest) simp_all
    then show ?thesis unfolding e rstrip_pad_append using True q by simp
  next
    case False
    then show ?thesis unfolding e rstrip_pad_append using 4 by simp
  qed
qed

lemma generate_token_length: "length (generate_token urandom) = 43"
  by (simp add: generate_token_def token_urlsafe_def token_bytes_def rstrip_b64_length)

subsection \<open>Queries on tables\<close>

lemma update_first_skip:
  "\<forall>x\<in>set xs. \<not> p x \<Longrightarrow> update_first p f (xs @ ys) = xs @ update_first p f ys"
  by (induction xs) simp_all

lemma find_by_key:
  "distinct (map k xs) \<Longrightarrow> x \<in> set xs \<Longrightarrow> find (\<lambda>y. k y = k x) xs = Some x"
  by (induction xs) force+

lemma query_get_member:
  "distinct (map u_uuid (users db)) \<Longrightarrow> user \<in> set (users db) \<Longrightarrow>
     query_get db (u_uuid user) = Some user"
  by (simp add: query_get_def first_filter_find find_by_key)

lemma query_get_uuid: "query_get db ident = Some u \<Longrightarrow> u_uuid u = ident"
  by (auto simp: query_get_def first_filter_find dest: find_Some_iff [THEN iffD1])

lemma expiry_values:
  "PASSWORD_RESET_EXPIRY = 3600000000" "MAGIC_LINK_EXPIRY = 900000000"
  "RATE_LIMIT_WINDOW = 3600000000" "timedelta 1 0 0 = 86400000000"
  by (simp_all add: PASSWORD_RESET_EXPIRY_def MAGIC_LINK_EXPIRY_def RATE_LIMIT_WINDOW_def
      timedelta_def)

lemma record_all_rows:
  "rate_limits (foldl (\<lambda>d (t, i). snd (record_rate_limit sha256 t i email action_type d))
                  db attempts)
   = rate_limits db @ map (\<lambda>(t, i). \<lparr>rl_uuid = i,
         rl_identifier = hash_email_for_rate_limit sha256 email,
         rl_action_type = action_type, rl_timestamp = t\<rparr>) attempts"
  by (induction attempts arbitrary: db)
     (simp_all add: record_rate_limit_def Let_def split_def)

lemma hex_digit_member: "n < 16 \<Longrightarrow> hex_digits ! n \<in> set hex_digits"
  by (rule nth_mem) (simp add: hex_digits_def)

lemma hex_byte_chars: "set (hex_byte b) \<subseteq> set hex_digits"
proof -
  have "unat b div 16 < 16"
    using unsigned_less [of b, where 'a = nat] by simp
  moreover have "unat b mod 16 < 16" by simp
  ultimately show ?thesis by (simp add: hex_byte_def hex_digit_member)
qed

lemma hexdigest_chars: "set (hexdigest bs) \<subseteq> set hex_digits"
  using hex_byte_chars by (auto simp: hexdigest_def)

lemma hexdigest_length: "length (hexdigest bs) = 2 * length bs"
  by (induction bs) (simp_all add: hexdigest_def hex_byte_def)


section \<open>The token lifecycle\<close>

text \<open>
  Claim C1. A password-reset token issued for a stored user is a string of 43 characters;
  validated with the type \<open>password_reset\<close> before its expiry it yields that user;
  invalidating it then returns true; and every later validation of it returns nothing.
  The user is a row of the user table, whose primary keys are distinct, and the hash of the
  new secret is the hash of no token already stored (the secret is fresh).
\<close>

theorem token_lifecycle:
  assumes member: "user \<in> set (users db)"
    and keys: "distinct (map u_uuid (users db))"
    and fresh: "\<forall>t\<in>set (auth_tokens db).
                  at_token_hash t \<noteq> hash_token sha256 (generate_token urandom)"
    and created: "create_auth_token sha256 urandom t0 new_uuid user ''password_reset'' db
                    = (T, db1)"
    and early: "t1 < t0 + PASSWORD_RESET_EXPIRY"
    and validated: "validate_token sha256 t1 T ''password_reset'' db1 = (r1, db2)"
    and invalidated: "invalidate_token sha256 t2 T db2 = (r2, db3)"
  shows "length T = 43 \<and> r1 = Some user \<and> r2 = True
         \<and> (\<forall>t3. fst (validate_token sha256 t3 T ''password_reset'' db3) = None)"
proof -
  let ?h = "hash_token sha256 T"
  let ?old = "delete_where (\<lambda>t. at_user_id t = u_uuid user
                 \<and> at_token_type t = ''password_reset'' \<and> at_used_at t = None) (auth_tokens db)"
  let ?new = "\<lparr>at_uuid = new_uuid, at_user_id = u_uuid user, at_token_hash = ?h,
               at_token_type = ''password_reset'', at_created_at = t0,
               at_expires_at = t0 + PASSWORD_RESET_EXPIRY, at_used_at = None\<rparr>"
  from created have T: "T = generate_token urandom"
    and db1: "db1 = db\<lparr>auth_tokens := ?old @ [?new]\<rparr>"
    by (auto simp: create_auth_token_def Let_def)
  have len: "length T = 43" by (simp add: T generate_token_length)
  have old: "\<forall>t\<in>set ?old. at_token_hash t \<noteq> ?h"
    using fresh by (simp add: T delete_where_def)
  have users1: "users db1 = users db" by (simp add: db1)
  have v: "validate_token sha256 t1 T ''password_reset'' db1 = (Some user, db1)"
    using old early member keys
    by (simp add: validate_token_def db1 first_def Let_def query_get_member)
  with validated have r1: "r1 = Some user" and db2: "db2 = db1" by simp_all
  have upd: "update_first (\<lambda>t. at_token_hash t = ?h) (\<lambda>t. t\<lparr>at_used_at := Some t2\<rparr>)
               (?old @ [?new]) = ?old @ [?new\<lparr>at_used_at := Some t2\<rparr>]"
    using old by (simp add: update_first_skip)
  have i: "invalidate_token sha256 t2 T db1
             = (True, db1\<lparr>auth_tokens := ?old @ [?new\<lparr>at_used_at := Some t2\<rparr>]\<rparr>)"
    using old upd by (simp add: invalidate_token_def db1 first_def Let_def)
  with invalidated db2 have r2: "r2 = True"
    and db3: "db3 = db1\<lparr>auth_tokens := ?old @ [?new\<lparr>at_used_at := Some t2\<rparr>]\<rparr>"
    by simp_all
  have "fst (validate_token sha256 t3 T ''password_reset'' db3) = None" for t3
    using old by (simp add: validate_token_def db3 first_def Let_def)
  with len r1 r2 show ?thesis by simp
qed

theorem token_lifecycle_witness:
  "(let sha256 = (\<lambda>bs. take 32 (bs @ replicate 32 (0 :: byte)));
        urandom = (\<lambda>i. (of_nat (7 * i + 3) :: byte));
        ann = \<lparr>u_uuid = 1, u_username = ''ann'', u_email = Some ''ann@example.org''\<rparr>;
        bob = \<lparr>u_uuid = 2, u_username = ''bob'', u_email = None\<rparr>;
        db = \<lparr>users = [bob, ann],
              auth_tokens = [\<lparr>at_uuid = 10, at_user_id = 2, at_token_hash = ''00ff'',
                              at_token_type = ''password_reset'', at_created_at = 5,
                              at_expires_at = 3600000005, at_used_at = None\<rparr>,
                             \<lparr>at_uuid = 11, at_user_id = 1, at_token_hash = ''ab12'',
                              at_token_type = ''password_reset'', at_created_at = 6,
                              at_expires_at = 3600000006, at_used_at = None\<rparr>],
              rate_limits = []\<rparr>;
        created = create_auth_token sha256 urandom 1000 12 ann ''password_reset'' db;
        validated = validate_token sha256 3600000999 (fst created) ''password_reset''
                      (snd created);
        invalidated = invalidate_token sha256 3600000999 (fst created) (snd validated)
    in length (fst created) = 43 \<and> fst validated = Some ann \<and> fst invalidated = True
       \<and> (\<forall>t3. fst (validate_token sha256 t3 (fst created) ''password_reset''
                      (snd invalidated)) = None))"
proof -
  let ?sha = "\<lambda>bs. take 32 (bs @ replicate 32 (0 :: byte))"
  let ?rnd = "\<lambda>i. (of_nat (7 * i + 3) :: byte)"
  let ?ann = "\<lparr>u_uuid = 1, u_username = ''ann'', u_email = Some ''ann@example.org''\<rparr>"
  let ?bob = "\<lparr>u_uuid = 2, u_username = ''bob'', u_email = None\<rparr>"
  let ?db = "\<lparr>users = [?bob, ?ann],
              auth_tokens = [\<lparr>at_uuid = 10, at_user_id = 2, at_token_hash = ''00ff'',
                              at_token_type = ''password_reset'', at_created_at = 5,
                              at_expires_at = 3600000005, at_used_at = None\<rparr>,
                             \<lparr>at_uuid = 11, at_user_id = 1, at_token_hash = ''ab12'',
                              at_token_type = ''password_reset'', at_created_at = 6,
                              at_expires_at = 3600000006, at_used_at = None\<rparr>],
              rate_limits = []\<rparr>"
  let ?c = "create_auth_token ?sha ?rnd 1000 12 ?ann ''password_reset'' ?db"
  let ?v = "validate_token ?sha 3600000999 (fst ?c) ''password_reset'' (snd ?c)"
  let ?i = "invalidate_token ?sha 3600000999 (fst ?c) (snd ?v)"
  have member: "?ann \<in> set (users ?db)" by simp
  have keys: "distinct (map u_uuid (users ?db))" by simp
  have fresh: "\<forall>t\<in>set (auth_tokens ?db).
                 at_token_hash t \<noteq> hash_token ?sha (generate_token ?rnd)"
    by code_simp
  have early: "(3600000999 :: int) < 1000 + PASSWORD_RESET_EXPIRY"
    by (simp add: expiry_values)
  have "length (fst ?c) = 43 \<and> fst ?v = Some ?ann \<and> fst ?i = True
        \<and> (\<forall>t3. fst (validate_token ?sha t3 (fst ?c) ''password_reset'' (snd ?i)) = None)"
    by (rule token_lifecycle [OF member keys fresh _ early]) simp_all
  then show ?thesis by (simp add: Let_def)
qed

section \<open>Rate limiting\<close>

text \<open>
  Claim C2. \<open>check_rate_limit\<close> returns true exactly when fewer than 3 RateLimit rows have
  the SHA-256 hash of the lower-cased, trimmed email as identifier, the given action type
  and a timestamp strictly inside the trailing hour. Every recorded attempt inside the
  window adds one to that number, so the answer is false from the fourth attempt on; rows
  at or before the start of the window are not counted, so the answer is true again once
  the window has passed. The check leaves the database as it was.
\<close>

theorem check_rate_limit_window:
  "fst (check_rate_limit sha256 now email action_type db)
     = (spec_recent_requests sha256 now email action_type db < 3)
   \<and> snd (check_rate_limit sha256 now email action_type db) = db
   \<and> spec_recent_requests sha256 now email action_type
        (foldl (\<lambda>d (t, i). snd (record_rate_limit sha256 t i email action_type d)) db attempts)
      = spec_recent_requests sha256 now email action_type db
        + length (filter (\<lambda>(t, i). now - 3600000000 < t) attempts)
   \<and> ((\<forall>r\<in>set (rate_limits db). rl_timestamp r \<le> now - 3600000000)
        \<longrightarrow> fst (check_rate_limit sha256 now email action_type db) = True)"
proof -
  have a: "fst (check_rate_limit sha256 now email action_type db)
             = (spec_recent_requests sha256 now email action_type db < 3)"
    by (simp add: check_rate_limit_def spec_recent_requests_def hash_email_for_rate_limit_def
        expiry_values RATE_LIMIT_MAX_REQUESTS_def Let_def)
  have b: "snd (check_rate_limit sha256 now email action_type db) = db"
    by (simp add: check_rate_limit_def Let_def)
  have c: "spec_recent_requests sha256 now email action_type
        (foldl (\<lambda>d (t, i). snd (record_rate_limit sha256 t i email action_type d)) db attempts)
      = spec_recent_requests sha256 now email action_type db
        + length (filter (\<lambda>(t, i). now - 3600000000 < t) attempts)"
    unfolding spec_recent_requests_def record_all_rows
    by (simp add: hash_email_for_rate_limit_def split_def comp_def)
  have d: "fst (check_rate_limit sha256 now email action_type db) = True"
    if "\<forall>r\<in>set (rate_limits db). rl_timestamp r \<le> now - 3600000000"
  proof -
    from that have "filter (\<lambda>r. rl_identifier r
                                  = hexdigest (sha256 (encode (py_strip (py_lower email))))
                         \<and> rl_action_type r = action_type
                         \<and> now - 3600000000 < rl_timestamp r) (rate_limits db) = []"
      by (auto simp: filter_empty_conv)
    then show ?thesis unfolding a spec_recent_requests_def by simp
  qed
  from a b c d show ?thesis by blast
qed

theorem check_rate_limit_window_witness:
  "(let sha256 = (\<lambda>bs. take 32 (bs @ replicate 32 (0 :: byte)));
        db = \<lparr>users = [], auth_tokens = [], rate_limits = []\<rparr>;
        db3 = foldl (\<lambda>d (t, i). snd (record_rate_limit sha256 t i '' Ann@Example.org''
                                         ''magic_link'' d)) db [(100, 1), (200, 2), (300, 3)]
    in fst (check_rate_limit sha256 400 '' Ann@Example.org'' ''magic_link'' db) = True
       \<and> fst (check_rate_limit sha256 400 '' Ann@Example.org'' ''magic_link'' db3) = False
       \<and> snd (check_rate_limit sha256 400 '' Ann@Example.org'' ''magic_link'' db3) = db3
       \<and> fst (check_rate_limit sha256 3600000300 '' Ann@Example.org'' ''magic_link'' db3)
           = True)"
proof -
  let ?sha = "\<lambda>bs. take 32 (bs @ replicate 32 (0 :: byte))"
  let ?db = "\<lparr>users = [], auth_tokens = [], rate_limits = []\<rparr>"
  let ?db3 = "foldl (\<lambda>d (t, i). snd (record_rate_limit ?sha t i '' Ann@Example.org''
                                         ''magic_link'' d)) ?db [(100, 1), (200, 2), (300, 3)]"
  have none: "spec_recent_requests ?sha 400 '' Ann@Example.org'' ''magic_link'' ?db = 0"
    by (simp add: spec_recent_requests_def)
  have old: "\<forall>r\<in>set (rate_limits ?db3). rl_timestamp r \<le> 3600000300 - 3600000000"
    unfolding record_all_rows by simp
  note first_attempts =
    check_rate_limit_window [of ?sha 400 "'' Ann@Example.org''" "''magic_link''" ?db
      "[(100, 1), (200, 2), (300, 3)]"]
  note fourth_attempt =
    check_rate_limit_window [of ?sha 400 "'' Ann@Example.org''" "''magic_link''" ?db3 "[]"]
  note next_hour =
    check_rate_limit_window [of ?sha 3600000300 "'' Ann@Example.org''" "''magic_link''"
      ?db3 "[]"]
  from first_attempts none
  have c0: "fst (check_rate_limit ?sha 400 '' Ann@Example.org'' ''magic_link'' ?db) = True"
    and three: "spec_recent_requests ?sha 400 '' Ann@Example.org'' ''magic_link'' ?db3 = 3"
    by simp_all
  from fourth_attempt three
  have c3: "fst (check_rate_limit ?sha 400 '' Ann@Example.org'' ''magic_link'' ?db3) = False"
    and c4: "snd (check_rate_limit ?sha 400 '' Ann@Example.org'' ''magic_link'' ?db3) = ?db3"
    by simp_all
  from next_hour old
  have c5: "fst (check_rate_limit ?sha 3600000300 '' Ann@Example.org'' ''magic_link'' ?db3)
              = True"
    by blast
  from c0 c3 c4 c5 show ?thesis unfolding Let_def by blast
qed

section \<open>One unused token for a user and a type\<close>

text \<open>
  Claim C3. After \<open>create_auth_token\<close> the stored tokens are the earlier ones without the
  unused tokens of this type for this user, followed by the one new row; that row is the
  only unused token of the type for the user, and a token of this type that validates to
  this user has the hash of the new secret.
\<close>

theorem create_auth_token_single_unused:
  assumes "create_auth_token sha256 urandom now new_uuid user token_type db = (raw_token, db')"
  shows "auth_tokens db'
           = filter (\<lambda>t. \<not> (at_user_id t = u_uuid user \<and> at_token_type t = token_type
                              \<and> at_used_at t = None)) (auth_tokens db)
             @ [\<lparr>at_uuid = new_uuid, at_user_id = u_uuid user,
                 at_token_hash = hash_token sha256 raw_token, at_token_type = token_type,
                 at_created_at = now,
                 at_expires_at = (if token_type = ''password_reset''
                                  then now + 3600000000 else now + 900000000),
                 at_used_at = None\<rparr>]
         \<and> filter (\<lambda>t. at_user_id t = u_uuid user \<and> at_token_type t = token_type
                         \<and> at_used_at t = None) (auth_tokens db')
             = [\<lparr>at_uuid = new_uuid, at_user_id = u_uuid user,
                 at_token_hash = hash_token sha256 raw_token, at_token_type = token_type,
                 at_created_at = now,
                 at_expires_at = (if token_type = ''password_reset''
                                  then now + 3600000000 else now + 900000000),
                 at_used_at = None\<rparr>]
         \<and> (\<forall>now' raw' u. fst (validate_token sha256 now' raw' token_type db') = Some u
                \<and> u_uuid u = u_uuid user
              \<longrightarrow> hash_token sha256 raw' = hash_token sha256 raw_token)"
proof -
  let ?mine = "\<lambda>t. at_user_id t = u_uuid user \<and> at_token_type t = token_type
                  \<and> at_used_at t = None"
  let ?row = "\<lparr>at_uuid = new_uuid, at_user_id = u_uuid user,
               at_token_hash = hash_token sha256 raw_token, at_token_type = token_type,
               at_created_at = now,
               at_expires_at = (if token_type = ''password_reset''
                                then now + 3600000000 else now + 900000000),
               at_used_at = None\<rparr>"
  from assms have tokens: "auth_tokens db' = filter (\<lambda>t. \<not> ?mine t) (auth_tokens db) @ [?row]"
    by (auto simp: create_auth_token_def Let_def delete_where_def expiry_values)
  have one: "filter ?mine (auth_tokens db') = [?row]"
    by (auto simp: tokens filter_empty_conv)
  have only: "hash_token sha256 raw' = hash_token sha256 raw_token"
    if v: "fst (validate_token sha256 now' raw' token_type db') = Some u"
      and u: "u_uuid u = u_uuid user" for now' raw' u
  proof -
    let ?valid = "\<lambda>t. at_token_hash t = hash_token sha256 raw' \<and> at_token_type t = token_type
                     \<and> at_used_at t = None \<and> at_expires_at t > now'"
    from v obtain t where f: "find ?valid (auth_tokens db') = Some t"
      and g: "query_get db' (at_user_id t) = Some u"
      by (auto simp: validate_token_def Let_def first_filter_find split: option.splits)
    from f have t: "t \<in> set (auth_tokens db')" and p: "?valid t"
      by (auto simp: find_Some_iff)
    from g u have "at_user_id t = u_uuid user" by (simp add: query_get_uuid)
    with t p have "t \<in> set (filter ?mine (auth_tokens db'))" by simp
    with one have "t = ?row" by simp
    then have "at_token_hash t = hash_token sha256 raw_token" by simp
    with p show ?thesis by simp
  qed
  from tokens one only show ?thesis by blast
qed

theorem create_auth_token_single_unused_witness:
  "(let sha256 = (\<lambda>bs. take 32 (bs @ replicate 32 (0 :: byte)));
        urandom = (\<lambda>i. (of_nat (7 * i + 3) :: byte));
        ann = \<lparr>u_uuid = 1, u_username = ''ann'', u_email = Some ''ann@example.org''\<rparr>;
        db = \<lparr>users = [ann],
              auth_tokens = [\<lparr>at_uuid = 8, at_user_id = 1,
                              at_token_hash = hash_token sha256 ''old-secret'',
                              at_token_type = ''password_reset'', at_created_at = 5,
                              at_expires_at = 3600000005, at_used_at = None\<rparr>,
                             \<lparr>at_uuid = 9, at_user_id = 1, at_token_hash = ''ab12'',
                              at_token_type = ''password_reset'', at_created_at = 6,
                              at_expires_at = 3600000006, at_used_at = Some 50\<rparr>,
                             \<lparr>at_uuid = 10, at_user_id = 1, at_token_hash = ''cd34'',
                              at_token_type = ''magic_link'', at_created_at = 7,
                              at_expires_at = 900000007, at_used_at = None\<rparr>,
                             \<lparr>at_uuid = 11, at_user_id = 2, at_token_hash = ''ef56'',
                              at_token_type = ''password_reset'', at_created_at = 8,
                              at_expires_at = 3600000008, at_used_at = None\<rparr>],
              rate_limits = []\<rparr>;
        created = create_auth_token sha256 urandom 1000 12 ann ''password_reset'' db
    in length (filter (\<lambda>t. at_user_id t = 1 \<and> at_token_type t = ''password_reset''
                              \<and> at_used_at t = None) (auth_tokens (snd created))) = 1
       \<and> map at_uuid (auth_tokens (snd created)) = [9, 10, 11, 12]
       \<and> fst (validate_token sha256 2000 ''old-secret'' ''password_reset'' (snd created))
           \<noteq> Some ann)"
proof -
  let ?sha = "\<lambda>bs. take 32 (bs @ replicate 32 (0 :: byte))"
  let ?rnd = "\<lambda>i. (of_nat (7 * i + 3) :: byte)"
  let ?ann = "\<lparr>u_uuid = 1, u_username = ''ann'', u_email = Some ''ann@example.org''\<rparr>"
  let ?db = "\<lparr>users = [?ann],
              auth_tokens = [\<lparr>at_uuid = 8, at_user_id = 1,
                              at_token_hash = hash_token ?sha ''old-secret'',
                              at_token_type = ''password_reset'', at_created_at = 5,
                              at_expires_at = 3600000005, at_used_at = None\<rparr>,
                             \<lparr>at_uuid = 9, at_user_id = 1, at_token_hash = ''ab12'',
                              at_token_type = ''password_reset'', at_created_at = 6,
                              at_expires_at = 3600000006, at_used_at = Some 50\<rparr>,
                             \<lparr>at_uuid = 10, at_user_id = 1, at_token_hash = ''cd34'',
                              at_token_type = ''magic_link'', at_created_at = 7,
                              at_expires_at = 900000007, at_used_at = None\<rparr>,
                             \<lparr>at_uuid = 11, at_user_id = 2, at_token_hash = ''ef56'',
                              at_token_type = ''password_reset'', at_created_at = 8,
                              at_expires_at = 3600000008, at_used_at = None\<rparr>],
              rate_limits = []\<rparr>"
  let ?c = "create_auth_token ?sha ?rnd 1000 12 ?ann ''password_reset'' ?db"
  note w = create_auth_token_single_unused
    [of ?sha ?rnd 1000 12 ?ann "''password_reset''" ?db "fst ?c" "snd ?c", OF prod.collapse [symmetric]]
  have differ: "hash_token ?sha ''old-secret'' \<noteq> hash_token ?sha (fst ?c)"
    by code_simp
  note stored = w [THEN conjunct1]
  note unused = w [THEN conjunct2, THEN conjunct1]
  note newest = w [THEN conjunct2, THEN conjunct2, rule_format,
                   of 2000 "''old-secret''" ?ann]
  from unused have c1: "length (filter (\<lambda>t. at_user_id t = 1
                              \<and> at_token_type t = ''password_reset''
                              \<and> at_used_at t = None) (auth_tokens (snd ?c))) = 1"
    by simp
  from stored have c2: "map at_uuid (auth_tokens (snd ?c)) = [9, 10, 11, 12]"
    by simp
  have c3: "fst (validate_token ?sha 2000 ''old-secret'' ''password_reset'' (snd ?c))
              \<noteq> Some ?ann"
  proof
    assume "fst (validate_token ?sha 2000 ''old-secret'' ''password_reset'' (snd ?c))
              = Some ?ann"
    then have "hash_token ?sha ''old-secret'' = hash_token ?sha (fst ?c)"
      by (intro newest conjI refl)
    with differ show False by (rule notE)
  qed
  from c1 c2 c3 show ?thesis unfolding Let_def by blast
qed

section \<open>Cleanup\<close>

text \<open>
  Claim C4. \<open>cleanup_expired_tokens\<close> removes the AuthToken rows whose expiry is strictly
  before the current time, the AuthToken rows consumed strictly more than 24 hours ago and
  the RateLimit rows whose timestamp is strictly more than one hour old; the other rows
  of the two tables stay as they are, in their order, and so does the user table.
\<close>

theorem cleanup_removes_exactly:
  "snd (cleanup_expired_tokens now db)
     = db\<lparr>auth_tokens :=
            filter (\<lambda>t. \<not> at_expires_at t < now
                        \<and> \<not> (\<exists>used. at_used_at t = Some used \<and> used < now - 86400000000))
              (auth_tokens db),
          rate_limits :=
            filter (\<lambda>r. \<not> rl_timestamp r < now - 3600000000) (rate_limits db)\<rparr>
   \<and> users (snd (cleanup_expired_tokens now db)) = users db"
proof -
  have "(case at_used_at t of None \<Rightarrow> False | Some used \<Rightarrow> used < now - 86400000000)
          = (\<exists>used. at_used_at t = Some used \<and> used < now - 86400000000)" for t :: AuthToken
    by (cases "at_used_at t") simp_all
  then show ?thesis
    by (simp add: cleanup_expired_tokens_def Let_def delete_where_def expiry_values
        conj_commute)
qed

theorem cleanup_removes_exactly_witness:
  "(let token = (\<lambda>ident expires used.
                   \<lparr>at_uuid = ident, at_user_id = 1, at_token_hash = ''ab12'',
                    at_token_type = ''magic_link'', at_created_at = 0,
                    at_expires_at = expires, at_used_at = used\<rparr>);
        attempt = (\<lambda>ident stamp.
                   \<lparr>rl_uuid = ident, rl_identifier = ''cd34'', rl_action_type = ''magic_link'',
                    rl_timestamp = stamp\<rparr>);
        db = \<lparr>users = [\<lparr>u_uuid = 1, u_username = ''ann'', u_email = None\<rparr>],
              auth_tokens = [token 1 99999999999 None,
                             token 2 100000000000 None,
                             token 3 200000000000 (Some 13599999999),
                             token 4 200000000000 (Some 13600000000),
                             token 5 200000000000 None],
              rate_limits = [attempt 6 96399999999, attempt 7 96400000000,
                             attempt 8 99999999999]\<rparr>;
        db' = snd (cleanup_expired_tokens 100000000000 db)
    in map at_uuid (auth_tokens db') = [2, 4, 5]
       \<and> map rl_uuid (rate_limits db') = [7, 8]
       \<and> users db' = users db)"
  using cleanup_removes_exactly
    [of 100000000000
        "\<lparr>users = [\<lparr>u_uuid = 1, u_username = ''ann'', u_email = None\<rparr>],
          auth_tokens =
            [\<lparr>at_uuid = 1, at_user_id = 1, at_token_hash = ''ab12'',
              at_token_type = ''magic_link'', at_created_at = 0,
              at_expires_at = 99999999999, at_used_at = None\<rparr>,
             \<lparr>at_uuid = 2, at_user_id = 1, at_token_hash = ''ab12'',
              at_token_type = ''magic_link'', at_created_at = 0,
              at_expires_at = 100000000000, at_used_at = None\<rparr>,
             \<lparr>at_uuid = 3, at_user_id = 1, at_token_hash = ''ab12'',
              at_token_type = ''magic_link'', at_created_at = 0,
              at_expires_at = 200000000000, at_used_at = Some 13599999999\<rparr>,
             \<lparr>at_uuid = 4, at_user_id = 1, at_token_hash = ''ab12'',
              at_token_type = ''magic_link'', at_created_at = 0,
              at_expires_at = 200000000000, at_used_at = Some 13600000000\<rparr>,
             \<lparr>at_uuid = 5, at_user_id = 1, at_token_hash = ''ab12'',
              at_token_type = ''magic_link'', at_created_at = 0,
              at_expires_at = 200000000000, at_used_at = None\<rparr>],
          rate_limits =
            [\<lparr>rl_uuid = 6, rl_identifier = ''cd34'', rl_action_type = ''magic_link'',
              rl_timestamp = 96399999999\<rparr>,
             \<lparr>rl_uuid = 7, rl_identifier = ''cd34'', rl_action_type = ''magic_link'',
              rl_timestamp = 96400000000\<rparr>,
             \<lparr>rl_uuid = 8, rl_identifier = ''cd34'', rl_action_type = ''magic_link'',
              rl_timestamp = 99999999999\<rparr>]\<rparr>"]
  by (simp add: Let_def)

section \<open>Only the hash is stored\<close>

text \<open>
  Claim C5. \<open>create_auth_token\<close> returns the raw secret and stores one new row whose
  token hash is \<open>hash_token\<close> of that secret: the hex digest, in the digits 0-9 and a-f,
  of the SHA-256 digest of the secret's UTF-8 bytes. With a digest of 32 bytes the stored
  hash has 64 characters and is not the 43-character secret. The database the call leaves
  is written out with the secret inside \<open>hash_token\<close> only: two secrets of equal hash
  leave the same database.
\<close>

theorem create_auth_token_stores_hash_only:
  assumes "create_auth_token sha256 urandom now new_uuid user token_type db = (raw_token, db')"
  shows "raw_token = generate_token urandom
         \<and> db' = db\<lparr>auth_tokens :=
                    filter (\<lambda>t. \<not> (at_user_id t = u_uuid user \<and> at_token_type t = token_type
                                      \<and> at_used_at t = None)) (auth_tokens db)
                    @ [\<lparr>at_uuid = new_uuid, at_user_id = u_uuid user,
                        at_token_hash = hash_token sha256 raw_token,
                        at_token_type = token_type, at_created_at = now,
                        at_expires_at = (if token_type = ''password_reset''
                                         then now + 3600000000 else now + 900000000),
                        at_used_at = None\<rparr>]\<rparr>
         \<and> hash_token sha256 raw_token = hexdigest (sha256 (encode raw_token))
         \<and> set (hash_token sha256 raw_token) \<subseteq> set ''0123456789abcdef''
         \<and> length (hash_token sha256 raw_token) = 2 * length (sha256 (encode raw_token))
         \<and> (length (sha256 (encode raw_token)) = 32
              \<longrightarrow> at_token_hash (last (auth_tokens db')) \<noteq> raw_token)
         \<and> (\<forall>urandom'. hash_token sha256 (generate_token urandom')
                            = hash_token sha256 raw_token
              \<longrightarrow> snd (create_auth_token sha256 urandom' now new_uuid user token_type db)
                    = db')"
proof -
  from assms have raw: "raw_token = generate_token urandom"
    by (auto simp: create_auth_token_def Let_def)
  have db': "db' = db\<lparr>auth_tokens :=
                    filter (\<lambda>t. \<not> (at_user_id t = u_uuid user \<and> at_token_type t = token_type
                                      \<and> at_used_at t = None)) (auth_tokens db)
                    @ [\<lparr>at_uuid = new_uuid, at_user_id = u_uuid user,
                        at_token_hash = hash_token sha256 (generate_token r),
                        at_token_type = token_type, at_created_at = now,
                        at_expires_at = (if token_type = ''password_reset''
                                         then now + 3600000000 else now + 900000000),
                        at_used_at = None\<rparr>]\<rparr>"
    if "snd (create_auth_token sha256 r now new_uuid user token_type db) = db'" for r db'
    using that by (auto simp: create_auth_token_def Let_def delete_where_def expiry_values)
  have stored: "db' = db\<lparr>auth_tokens :=
                    filter (\<lambda>t. \<not> (at_user_id t = u_uuid user \<and> at_token_type t = token_type
                                      \<and> at_used_at t = None)) (auth_tokens db)
                    @ [\<lparr>at_uuid = new_uuid, at_user_id = u_uuid user,
                        at_token_hash = hash_token sha256 raw_token,
                        at_token_type = token_type, at_created_at = now,
                        at_expires_at = (if token_type = ''password_reset''
                                         then now + 3600000000 else now + 900000000),
                        at_used_at = None\<rparr>]\<rparr>"
    using db' [of urandom db'] assms raw by simp
  have hex: "set (hash_token sha256 raw_token) \<subseteq> set ''0123456789abcdef''"
    using hexdigest_chars [of "sha256 (encode raw_token)"]
    by (simp add: hash_token_def hex_digits_def)
  have len: "length (hash_token sha256 raw_token) = 2 * length (sha256 (encode raw_token))"
    by (simp add: hash_token_def hexdigest_length)
  have differs: "at_token_hash (last (auth_tokens db')) \<noteq> raw_token"
    if "length (sha256 (encode raw_token)) = 32"
  proof
    assume "at_token_hash (last (auth_tokens db')) = raw_token"
    then have "hash_token sha256 raw_token = raw_token" by (simp add: stored)
    then have "length (hash_token sha256 raw_token) = 43"
      by (simp add: raw generate_token_length)
    with len that show False by simp
  qed
  have same: "snd (create_auth_token sha256 r now new_uuid user token_type db) = db'"
    if "hash_token sha256 (generate_token r) = hash_token sha256 raw_token" for r
    using db' [of r, OF refl] that stored by simp
  from raw stored hex len differs same show ?thesis
    by (simp add: hash_token_def)
qed

theorem create_auth_token_stores_hash_only_witness:
  "(let sha256 = (\<lambda>bs. take 32 (bs @ replicate 32 (0 :: byte)));
        urandom = (\<lambda>i. (of_nat (7 * i + 3) :: byte));
        urandom' = (\<lambda>i. if i = 31 then 0 else (of_nat (7 * i + 3) :: byte));
        ann = \<lparr>u_uuid = 1, u_username = ''ann'', u_email = Some ''ann@example.org''\<rparr>;
        db = \<lparr>users = [ann], auth_tokens = [], rate_limits = []\<rparr>;
        created = create_auth_token sha256 urandom 1000 12 ann ''magic_link'' db;
        created' = create_auth_token sha256 urandom' 1000 12 ann ''magic_link'' db
    in at_token_hash (last (auth_tokens (snd created))) = hash_token sha256 (fst created)
       \<and> length (hash_token sha256 (fst created)) = 64
       \<and> at_token_hash (last (auth_tokens (snd created))) \<noteq> fst created
       \<and> fst created' \<noteq> fst created
       \<and> snd created' = snd created)"
proof -
  let ?sha = "\<lambda>bs. take 32 (bs @ replicate 32 (0 :: byte))"
  let ?rnd = "\<lambda>i. (of_nat (7 * i + 3) :: byte)"
  let ?rnd' = "\<lambda>i. if i = 31 then 0 else (of_nat (7 * i + 3) :: byte)"
  let ?ann = "\<lparr>u_uuid = 1, u_username = ''ann'', u_email = Some ''ann@example.org''\<rparr>"
  let ?db = "\<lparr>users = [?ann], auth_tokens = [], rate_limits = []\<rparr>"
  let ?c = "create_auth_token ?sha ?rnd 1000 12 ?ann ''magic_link'' ?db"
  let ?c' = "create_auth_token ?sha ?rnd' 1000 12 ?ann ''magic_link'' ?db"
  note w = create_auth_token_stores_hash_only
    [of ?sha ?rnd 1000 12 ?ann "''magic_link''" ?db "fst ?c" "snd ?c",
     OF prod.collapse [symmetric]]
  have size: "length (?sha (encode (fst ?c))) = 32" by simp
  have collide: "hash_token ?sha (generate_token ?rnd') = hash_token ?sha (fst ?c)"
    by code_simp
  have other: "fst ?c' \<noteq> fst ?c" by code_simp
  note stored = w [THEN conjunct2, THEN conjunct1]
  note digits = w [THEN conjunct2, THEN conjunct2, THEN conjunct2, THEN conjunct2,
                   THEN conjunct1]
  note differs = w [THEN conjunct2, THEN conjunct2, THEN conjunct2, THEN conjunct2,
                    THEN conjunct2, THEN conjunct1, rule_format]
  note same = w [THEN conjunct2, THEN conjunct2, THEN conjunct2, THEN conjunct2,
                 THEN conjunct2, THEN conjunct2, rule_format, of ?rnd']
  have c1: "at_token_hash (last (auth_tokens (snd ?c))) = hash_token ?sha (fst ?c)"
    by (subst stored) simp
  from digits size have c2: "length (hash_token ?sha (fst ?c)) = 64" by simp
  from size have c3: "at_token_hash (last (auth_tokens (snd ?c))) \<noteq> fst ?c"
    by (rule differs)
  from collide have c4: "snd ?c' = snd ?c" by (rule same)
  from c1 c2 c3 other c4 show ?thesis unfolding Let_def by blast
qed

section \<open>Validation does not write\<close>

text \<open>
  Claim C6. \<open>validate_token\<close> leaves the database as it was, whether a row matches or
  not; in particular it does not set the consumption time of the token it finds.
\<close>

theorem validate_token_read_only:
  "snd (validate_token sha256 now raw_token token_type db) = db"
  by (simp add: validate_token_def Let_def split: option.splits)

theorem validate_token_read_only_witness:
  "(let sha256 = (\<lambda>bs. take 32 (bs @ replicate 32 (0 :: byte)));
        ann = \<lparr>u_uuid = 1, u_username = ''ann'', u_email = Some ''ann@example.org''\<rparr>;
        db = \<lparr>users = [ann],
              auth_tokens = [\<lparr>at_uuid = 8, at_user_id = 1,
                              at_token_hash = hash_token sha256 ''secret'',
                              at_token_type = ''magic_link'', at_created_at = 5,
                              at_expires_at = 900000005, at_used_at = None\<rparr>],
              rate_limits = []\<rparr>
    in snd (validate_token sha256 1000 ''secret'' ''magic_link'' db) = db
       \<and> snd (validate_token sha256 1000 ''other'' ''magic_link'' db) = db)"
  unfolding Let_def
  by (intro conjI validate_token_read_only)

section \<open>Finding a user by email\<close>

text \<open>
  Claim C7, as stated, compares both sides lower-cased and trimmed. \<open>get_user_by_email\<close>
  trims the queried email only: a user whose stored email has a leading blank is not found
  by the query that equals it after trimming.
\<close>

theorem get_user_by_email_counterexample:
  "\<lparr>u_uuid = 1, u_username = ''ann'', u_email = Some '' ann@example.org''\<rparr>
     \<in> set (users \<lparr>users = [\<lparr>u_uuid = 1, u_username = ''ann'',
                               u_email = Some '' ann@example.org''\<rparr>],
                     auth_tokens = [], rate_limits = []\<rparr>)
   \<and> py_strip (py_lower '' ann@example.org'') = py_strip (py_lower ''ann@example.org'')
   \<and> fst (get_user_by_email ''ann@example.org''
            \<lparr>users = [\<lparr>u_uuid = 1, u_username = ''ann'',
                       u_email = Some '' ann@example.org''\<rparr>],
             auth_tokens = [], rate_limits = []\<rparr>) = None"
  by code_simp

text \<open>
  Claim C7, amended. For a non-empty query \<open>get_user_by_email\<close> returns the first user in
  scan order whose stored email is non-empty and, lower-cased, equals the lower-cased and
  trimmed query; it returns nothing when there is no such user or the query is empty.
  It leaves the database as it was.
\<close>

theorem get_user_by_email_first_match:
  "fst (get_user_by_email email db)
     = (if email = [] then None
        else find (\<lambda>u. \<exists>stored. u_email u = Some stored \<and> stored \<noteq> []
                          \<and> py_lower stored = py_strip (py_lower email)) (users db))
   \<and> snd (get_user_by_email email db) = db"
proof -
  have "(case u_email u of None \<Rightarrow> False
         | Some stored \<Rightarrow> stored \<noteq> [] \<and> py_lower stored = n)
        = (\<exists>stored. u_email u = Some stored \<and> stored \<noteq> [] \<and> py_lower stored = n)"
    for u :: User and n
    by (cases "u_email u") simp_all
  then show ?thesis
    by (simp add: get_user_by_email_def Let_def first_filter_find)
qed

theorem get_user_by_email_first_match_witness:
  "(let ann = \<lparr>u_uuid = 1, u_username = ''ann'', u_email = Some ''Ann@Example.org''\<rparr>;
        bob = \<lparr>u_uuid = 2, u_username = ''bob'', u_email = None\<rparr>;
        eve = \<lparr>u_uuid = 3, u_username = ''eve'', u_email = Some ''ann@example.org''\<rparr>;
        db = \<lparr>users = [bob, ann, eve], auth_tokens = [], rate_limits = []\<rparr>
    in fst (get_user_by_email ''  ANN@example.ORG '' db) = Some ann
       \<and> fst (get_user_by_email [] db) = None
       \<and> snd (get_user_by_email ''  ANN@example.ORG '' db) = db)"
proof -
  let ?ann = "\<lparr>u_uuid = 1, u_username = ''ann'', u_email = Some ''Ann@Example.org''\<rparr>"
  let ?bob = "\<lparr>u_uuid = 2, u_username = ''bob'', u_email = None\<rparr>"
  let ?eve = "\<lparr>u_uuid = 3, u_username = ''eve'', u_email = Some ''ann@example.org''\<rparr>"
  let ?db = "\<lparr>users = [?bob, ?ann, ?eve], auth_tokens = [], rate_limits = []\<rparr>"
  have query: "py_strip (py_lower ''  ANN@example.ORG '') = ''ann@example.org''"
    by code_simp
  have stored: "py_lower ''Ann@Example.org'' = ''ann@example.org''"
    by code_simp
  from get_user_by_email_first_match [of "''  ANN@example.ORG ''" ?db] query stored
  have c1: "fst (get_user_by_email ''  ANN@example.ORG '' ?db) = Some ?ann"
    and c3: "snd (get_user_by_email ''  ANN@example.ORG '' ?db) = ?db"
    by simp_all
  from get_user_by_email_first_match [of "[]" ?db]
  have c2: "fst (get_user_by_email [] ?db) = None" by simp
  from c1 c2 c3 show ?thesis unfolding Let_def by blast
qed

section \<open>Sending email\<close>



section \<open>Token types are not checked\<close>

text \<open>
  Claim C9. \<open>create_auth_token\<close> accepts every token type: for a type other than
  \<open>password_reset\<close>, whatever the string, the new row is stored with that type and expires
  15 minutes after the call.
\<close>

theorem create_auth_token_any_type:
  assumes "token_type \<noteq> ''password_reset''"
    and "create_auth_token sha256 urandom now new_uuid user token_type db = (raw_token, db')"
  shows "db' = db\<lparr>auth_tokens :=
                   filter (\<lambda>t. \<not> (at_user_id t = u_uuid user \<and> at_token_type t = token_type
                                     \<and> at_used_at t = None)) (auth_tokens db)
                   @ [\<lparr>at_uuid = new_uuid, at_user_id = u_uuid user,
                       at_token_hash = hash_token sha256 raw_token,
                       at_token_type = token_type, at_created_at = now,
                       at_expires_at = now + 900000000, at_used_at = None\<rparr>]\<rparr>"
  using assms
  by (auto simp: create_auth_token_def Let_def delete_where_def expiry_values)

theorem create_auth_token_any_type_witness:
  "(let sha256 = (\<lambda>bs. take 32 (bs @ replicate 32 (0 :: byte)));
        urandom = (\<lambda>i. (of_nat (7 * i + 3) :: byte));
        ann = \<lparr>u_uuid = 1, u_username = ''ann'', u_email = Some ''ann@example.org''\<rparr>;
        db = \<lparr>users = [ann], auth_tokens = [], rate_limits = []\<rparr>;
        created = create_auth_token sha256 urandom 1000 12 ann ''no such type'' db
    in map at_token_type (auth_tokens (snd created)) = [''no such type'']
       \<and> map at_expires_at (auth_tokens (snd created)) = [900001000])"
proof -
  let ?sha = "\<lambda>bs. take 32 (bs @ replicate 32 (0 :: byte))"
  let ?rnd = "\<lambda>i. (of_nat (7 * i + 3) :: byte)"
  let ?ann = "\<lparr>u_uuid = 1, u_username = ''ann'', u_email = Some ''ann@example.org''\<rparr>"
  let ?db = "\<lparr>users = [?ann], auth_tokens = [], rate_limits = []\<rparr>"
  let ?c = "create_auth_token ?sha ?rnd 1000 12 ?ann ''no such type'' ?db"
  have other: "''no such type'' \<noteq> ''password_reset''" by simp
  note w = create_auth_token_any_type
    [of "''no such type''" ?sha ?rnd 1000 12 ?ann ?db "fst ?c" "snd ?c",
     OF other prod.collapse [symmetric]]
  have c1: "map at_token_type (auth_tokens (snd ?c)) = [''no such type'']"
    by (subst w) simp
  have c2: "map at_expires_at (auth_tokens (snd ?c)) = [900001000]"
    by (subst w) simp
  from c1 c2 show ?thesis unfolding Let_def by blast
qed

section \<open>Invalidation matches by hash alone\<close>

text \<open>
  Claim C10. \<open>invalidate_token\<close> looks a token up by its hash only. When the first row with
  the hash of the given secret is \<open>row\<close>, used or not, expired or not, the call returns
  true and sets the consumption time of that row to the current time, leaving the other
  rows as they were. A later cleanup keeps the row exactly when it has not expired and the
  new consumption time is at most 24 hours old: the retention of a consumed token counts
  from the latest invalidation.
\<close>

theorem invalidate_token_by_hash_alone:
  assumes "auth_tokens db = before @ row # after"
    and "\<forall>t\<in>set before. at_token_hash t \<noteq> hash_token sha256 raw_token"
    and "at_token_hash row = hash_token sha256 raw_token"
  shows "invalidate_token sha256 now raw_token db
           = (True, db\<lparr>auth_tokens := before @ row\<lparr>at_used_at := Some now\<rparr> # after\<rparr>)
         \<and> (row\<lparr>at_used_at := Some now\<rparr>
              \<in> set (auth_tokens (snd (cleanup_expired_tokens later
                                          (snd (invalidate_token sha256 now raw_token db)))))
            \<longleftrightarrow> later \<le> at_expires_at row \<and> later - 86400000000 \<le> now)"
proof -
  have upd: "update_first (\<lambda>t. at_token_hash t = hash_token sha256 raw_token)
               (\<lambda>t. t\<lparr>at_used_at := Some now\<rparr>) (before @ row # after)
             = before @ row\<lparr>at_used_at := Some now\<rparr> # after"
    using assms(2,3) by (simp add: update_first_skip)
  have inv: "invalidate_token sha256 now raw_token db
           = (True, db\<lparr>auth_tokens := before @ row\<lparr>at_used_at := Some now\<rparr> # after\<rparr>)"
    using assms upd by (simp add: invalidate_token_def Let_def first_def)
  have keep: "(row\<lparr>at_used_at := Some now\<rparr>
              \<in> set (auth_tokens (snd (cleanup_expired_tokens later
                     (db\<lparr>auth_tokens := before @ row\<lparr>at_used_at := Some now\<rparr> # after\<rparr>)))))
            \<longleftrightarrow> later \<le> at_expires_at row \<and> later - 86400000000 \<le> now"
    by (auto simp: cleanup_expired_tokens_def Let_def delete_where_def expiry_values)
  from inv keep show ?thesis by simp
qed

theorem invalidate_token_by_hash_alone_witness:
  "(let sha256 = (\<lambda>bs. take 32 (bs @ replicate 32 (0 :: byte)));
        other = \<lparr>at_uuid = 7, at_user_id = 2, at_token_hash = ''ab12'',
                 at_token_type = ''magic_link'', at_created_at = 0,
                 at_expires_at = 900000000, at_used_at = None\<rparr>;
        spent = \<lparr>at_uuid = 8, at_user_id = 1, at_token_hash = hash_token sha256 ''secret'',
                 at_token_type = ''password_reset'', at_created_at = 0,
                 at_expires_at = 3600000000, at_used_at = Some 10\<rparr>;
        kept = \<lparr>at_uuid = 9, at_user_id = 1, at_token_hash = hash_token sha256 ''secret'',
                at_token_type = ''password_reset'', at_created_at = 0,
                at_expires_at = 200000000000, at_used_at = Some 10\<rparr>;
        db = \<lparr>users = [], auth_tokens = [other, spent], rate_limits = []\<rparr>;
        db2 = \<lparr>users = [], auth_tokens = [other, kept], rate_limits = []\<rparr>
    in invalidate_token sha256 90000000000 ''secret'' db
         = (True, db\<lparr>auth_tokens := [other, spent\<lparr>at_used_at := Some 90000000000\<rparr>]\<rparr>)
       \<and> kept\<lparr>at_used_at := Some 90000000000\<rparr>
           \<in> set (auth_tokens (snd (cleanup_expired_tokens 100000000000
                                      (snd (invalidate_token sha256 90000000000 ''secret''
                                              db2)))))
       \<and> kept \<notin> set (auth_tokens (snd (cleanup_expired_tokens 100000000000 db2))))"
proof -
  let ?sha = "\<lambda>bs. take 32 (bs @ replicate 32 (0 :: byte))"
  let ?other = "\<lparr>at_uuid = 7, at_user_id = 2, at_token_hash = ''ab12'',
                 at_token_type = ''magic_link'', at_created_at = 0,
                 at_expires_at = 900000000, at_used_at = None\<rparr>"
  let ?spent = "\<lparr>at_uuid = 8, at_user_id = 1, at_token_hash = hash_token ?sha ''secret'',
                 at_token_type = ''password_reset'', at_created_at = 0,
                 at_expires_at = 3600000000, at_used_at = Some 10\<rparr>"
  let ?kept = "\<lparr>at_uuid = 9, at_user_id = 1, at_token_hash = hash_token ?sha ''secret'',
                at_token_type = ''password_reset'', at_created_at = 0,
                at_expires_at = 200000000000, at_used_at = Some 10\<rparr>"
  let ?db = "\<lparr>users = [], auth_tokens = [?other, ?spent], rate_limits = []\<rparr>"
  let ?db2 = "\<lparr>users = [], auth_tokens = [?other, ?kept], rate_limits = []\<rparr>"
  have differ: "\<forall>t\<in>set [?other]. at_token_hash t \<noteq> hash_token ?sha ''secret''"
    by code_simp
  have split: "auth_tokens ?db = [?other] @ ?spent # []"
    and split2: "auth_tokens ?db2 = [?other] @ ?kept # []"
    by simp_all
  have same: "at_token_hash ?spent = hash_token ?sha ''secret''"
    and same2: "at_token_hash ?kept = hash_token ?sha ''secret''"
    by simp_all
  note found = invalidate_token_by_hash_alone
    [OF split differ same, of 90000000000 0, THEN conjunct1]
  note retained = invalidate_token_by_hash_alone
    [OF split2 differ same2, of 90000000000 100000000000, THEN conjunct2, THEN iffD2]
  have c1: "invalidate_token ?sha 90000000000 ''secret'' ?db
         = (True, ?db\<lparr>auth_tokens := [?other, ?spent\<lparr>at_used_at := Some 90000000000\<rparr>]\<rparr>)"
    by (subst found) simp
  have c2: "?kept\<lparr>at_used_at := Some 90000000000\<rparr>
           \<in> set (auth_tokens (snd (cleanup_expired_tokens 100000000000
                                      (snd (invalidate_token ?sha 90000000000 ''secret''
                                              ?db2)))))"
    by (rule retained) simp
  have c3: "?kept \<notin> set (auth_tokens (snd (cleanup_expired_tokens 100000000000 ?db2)))"
    by (simp add: cleanup_expired_tokens_def Let_def delete_where_def expiry_values)
  from c1 c2 c3 show ?thesis unfolding Let_def by blast
qed

end
